theory Spec2Isabelle
  imports Complex_Main
begin

section \<open>PCB inspection: reconciliation of detections and annotation of the test image\<close>

text \<open>
  The development embeds \<^verbatim>\<open>src/windownew.py\<close>: the method \<^verbatim>\<open>compare_pcbs\<close>
  (lines 80-100), \<^verbatim>\<open>get_detections\<close> (lines 69-78) and the two file-mode callbacks
  \<^verbatim>\<open>load_reference\<close> and \<^verbatim>\<open>open_test_file\<close> (lines 153-217) of the class
  \<^verbatim>\<open>PCBApp\<close>.
\<close>

subsection \<open>Detections\<close>

text \<open>
  A detection is the pair \<^verbatim>\<open>(label, xyxy)\<close> appended in \<^verbatim>\<open>get_detections\<close>: the class
  name and the four integer corner coordinates \<^verbatim>\<open>x1, y1, x2, y2\<close>.
\<close>

type_synonym label = string
type_synonym box = "int \<times> int \<times> int \<times> int"
type_synonym detection = "label \<times> box"

subsection \<open>Images, the drawing library and the store\<close>

text \<open>
  Images are numpy arrays owned by the heap; \<^verbatim>\<open>cv2.rectangle\<close> and \<^verbatim>\<open>cv2.putText\<close>
  write into the array they are handed. An image is modelled by its shape, its element
  type, the pixel data it was loaded with and the sequence of drawing calls applied to the
  buffer since: the raster of the image is a function of these. Colours are BGR triples;
  the font scales \<^verbatim>\<open>0.6\<close> and \<^verbatim>\<open>0.8\<close> are the decimal fractions the literals denote.
\<close>

type_synonym point = "int \<times> int"
type_synonym colour = "nat \<times> nat \<times> nat"

datatype font = FONT_HERSHEY_SIMPLEX

datatype draw_call =
    Rectangle point point colour nat
  | PutText string point font real colour nat

datatype dtype = UInt8 | UInt16 | Float32

record image =
  shape :: "nat \<times> nat \<times> nat"
  elem_type :: dtype
  pixels :: "nat list"
  drawn :: "draw_call list"

text \<open>
  The store is the list of allocated image buffers; the address of a buffer is its index.
  Allocation appends, so a new address is never one that is already in use.
\<close>

type_synonym addr = nat
type_synonym store = "image list"

definition draw :: "draw_call \<Rightarrow> image \<Rightarrow> image" where
  "draw c img = img\<lparr>drawn := drawn img @ [c]\<rparr>"

text \<open>\<^verbatim>\<open>img.copy()\<close>: a new buffer with the contents of \<open>img\<close>; returns its address.\<close>

definition ndarray_copy :: "store \<Rightarrow> addr \<Rightarrow> addr \<times> store" where
  "ndarray_copy h img = (length h, h @ [h ! img])"

text \<open>\<^verbatim>\<open>cv2.rectangle(img, pt1, pt2, color, thickness)\<close>: draws in place on \<open>img\<close>.\<close>

definition cv2_rectangle ::
  "store \<Rightarrow> addr \<Rightarrow> point \<Rightarrow> point \<Rightarrow> colour \<Rightarrow> nat \<Rightarrow> store" where
  "cv2_rectangle h img pt1 pt2 color thickness =
     h[img := draw (Rectangle pt1 pt2 color thickness) (h ! img)]"

text \<open>
  \<^verbatim>\<open>cv2.putText(img, text, org, fontFace, fontScale, color, thickness)\<close>: draws in
  place on \<open>img\<close>.
\<close>

definition cv2_putText ::
  "store \<Rightarrow> addr \<Rightarrow> string \<Rightarrow> point \<Rightarrow> font \<Rightarrow> real \<Rightarrow> colour \<Rightarrow> nat \<Rightarrow> store" where
  "cv2_putText h img txt org fontFace fontScale color thickness =
     h[img := draw (PutText txt org fontFace fontScale color thickness) (h ! img)]"

subsection \<open>\<^verbatim>\<open>compare_pcbs\<close>\<close>

text \<open>
  Lines 87-92, the loop over \<^verbatim>\<open>test_detections\<close>: a box and the label of every test
  detection, green when the label is among the reference labels and red otherwise.
\<close>

fun draw_test_components :: "store \<Rightarrow> addr \<Rightarrow> label list \<Rightarrow> detection list \<Rightarrow> store" where
  "draw_test_components h annotated ref_labels [] = h"
| "draw_test_components h annotated ref_labels ((lbl, x1, y1, x2, y2) # rest) =
     (let color = (if lbl \<in> set ref_labels then (0, 255, 0) else (0, 0, 255));
          h1 = cv2_rectangle h annotated (x1, y1) (x2, y2) color 2;
          h2 = cv2_putText h1 annotated lbl (x1, y1 - 5) FONT_HERSHEY_SIMPLEX 0.6 color 2
      in draw_test_components h2 annotated ref_labels rest)"

text \<open>
  Lines 96-98, the loop over \<^verbatim>\<open>enumerate(missing)\<close>; \<open>i\<close> is the running index.
\<close>

fun draw_missing :: "store \<Rightarrow> addr \<Rightarrow> nat \<Rightarrow> label list \<Rightarrow> store" where
  "draw_missing h annotated i [] = h"
| "draw_missing h annotated i (lbl # rest) =
     draw_missing
       (cv2_putText h annotated (''Missing: '' @ lbl) (20, 40 + 30 * int i)
          FONT_HERSHEY_SIMPLEX 0.8 (0, 0, 255) 2)
       annotated (Suc i) rest"

text \<open>Lines 80-100. Returns the address of the annotated image and the store.\<close>

definition compare_pcbs ::
  "store \<Rightarrow> detection list \<Rightarrow> detection list \<Rightarrow> addr \<Rightarrow> addr \<times> store" where
  "compare_pcbs h ref_detections test_detections test_img =
     (let (annotated, h1) = ndarray_copy h test_img;
          ref_labels = map fst ref_detections;
          test_labels = map fst test_detections;
          h2 = draw_test_components h1 annotated ref_labels test_detections;
          missing_labels = [lbl \<leftarrow> ref_labels. lbl \<notin> set test_labels];
          h3 = draw_missing h2 annotated 0 missing_labels
      in (annotated, h3))"

subsection \<open>The comparison result and its rendering\<close>

text \<open>
  \<^verbatim>\<open>compare_pcbs\<close> fuses two steps: it decides a status for every test detection and
  the list of missing reference labels, and it draws both. The two steps are separated
  here; \<open>compare_pcbs_factor\<close> below shows that their composition is \<open>compare_pcbs\<close>.
  The status of a test detection is the one named by the comment of line 89
  (green if correct, red if extra).
\<close>

datatype status = CORRECT | EXTRA

fun status_color :: "status \<Rightarrow> colour" where
  "status_color CORRECT = (0, 255, 0)"
| "status_color EXTRA = (0, 0, 255)"

record classified_entry =
  label :: label
  region :: box
  status :: status

datatype missing_entry = MissingEntry label

fun missing_label :: "missing_entry \<Rightarrow> label" where
  "missing_label (MissingEntry l) = l"

record comparison_result =
  entries :: "classified_entry list"
  missing :: "missing_entry list"

text \<open>Line 89: the membership test \<^verbatim>\<open>label in ref_labels\<close> decides the status.\<close>

definition classify :: "label list \<Rightarrow> detection \<Rightarrow> classified_entry" where
  "classify ref_labels d =
     \<lparr>label = fst d, region = snd d,
      status = (if fst d \<in> set ref_labels then CORRECT else EXTRA)\<rparr>"

text \<open>
  Lines 83-84, 89 and 95: one entry for every test detection, and the comprehension
  \<^verbatim>\<open>[lbl for lbl in ref_labels if lbl not in test_labels]\<close> for the missing labels.
\<close>

definition compare :: "detection list \<Rightarrow> detection list \<Rightarrow> comparison_result" where
  "compare ref_detections test_detections =
     (let ref_labels = map fst ref_detections;
          test_labels = map fst test_detections
      in \<lparr>entries = map (classify ref_labels) test_detections,
          missing = map MissingEntry [lbl \<leftarrow> ref_labels. lbl \<notin> set test_labels]\<rparr>)"

text \<open>Lines 87-92 with the colour taken from the status, and lines 82, 96-98 and 100.\<close>

fun draw_entries :: "store \<Rightarrow> addr \<Rightarrow> classified_entry list \<Rightarrow> store" where
  "draw_entries h annotated [] = h"
| "draw_entries h annotated (e # rest) =
     (case region e of (x1, y1, x2, y2) \<Rightarrow>
        let color = status_color (status e);
            h1 = cv2_rectangle h annotated (x1, y1) (x2, y2) color 2;
            h2 = cv2_putText h1 annotated (label e) (x1, y1 - 5) FONT_HERSHEY_SIMPLEX 0.6 color 2
        in draw_entries h2 annotated rest)"

definition render :: "store \<Rightarrow> addr \<Rightarrow> comparison_result \<Rightarrow> addr \<times> store" where
  "render h baseImage result =
     (let (annotated, h1) = ndarray_copy h baseImage;
          h2 = draw_entries h1 annotated (entries result);
          h3 = draw_missing h2 annotated 0 (map missing_label (missing result))
      in (annotated, h3))"

subsection \<open>The session: reference snapshot and the file-mode callbacks\<close>

text \<open>
  \<^verbatim>\<open>self.model(frame)[0]\<close>: the detector's result for a frame, with its boxes (class id
  and corner coordinates), the table of class names and the plotted frame.
\<close>

record yolo_result =
  boxes :: "(nat \<times> box) list"
  names :: "nat \<Rightarrow> string"
  plot :: image

text \<open>Lines 69-78.\<close>

definition get_detections :: "(image \<Rightarrow> yolo_result) \<Rightarrow> image \<Rightarrow> detection list \<times> image" where
  "get_detections model frame =
     (let result = model frame
      in (map (\<lambda>(cls_id, xyxy). (names result cls_id, xyxy)) (boxes result), plot result))"

text \<open>
  The part of the state of \<^verbatim>\<open>PCBApp\<close> that the file mode reads and writes. A callback
  ends by showing a message box, by showing an image with a caption, or silently when the
  file dialog was dismissed.
\<close>

record app =
  reference_detections :: "detection list option"

datatype outcome =
    Showwarning string string
  | Showerror string string
  | Dismissed
  | Shown image string

text \<open>
  A Python call ends by returning (\<open>Inr\<close>) or by raising an exception of some class
  (\<open>Inl\<close>). The callbacks contain no \<^verbatim>\<open>raise\<close>, and \<^verbatim>\<open>cv2.imread\<close> reports an
  unreadable file by returning \<^verbatim>\<open>None\<close>: every path below returns.
\<close>

datatype py_exception = PyException string

text \<open>Line 66 of \<^verbatim>\<open>__init__\<close>.\<close>

definition init :: app where
  "init = \<lparr>reference_detections = None\<rparr>"

text \<open>
  Lines 153-181. \<open>file_path\<close> is what the file dialog returns (empty when dismissed),
  \<open>imread\<close> is \<^verbatim>\<open>cv2.imread\<close> (\<open>None\<close> for an unreadable file).
\<close>

definition load_reference ::
  "app \<Rightarrow> string \<Rightarrow> (string \<Rightarrow> image option) \<Rightarrow> (image \<Rightarrow> yolo_result) \<Rightarrow>
   py_exception + app \<times> outcome" where
  "load_reference self file_path imread model =
     (if file_path = [] then Inr (self, Dismissed)
      else case imread file_path of
        None \<Rightarrow> Inr (self, Showerror ''Error'' ''Could not read reference image'')
      | Some frame \<Rightarrow>
          (let (detections, annotated_frame) = get_detections model frame
           in Inr (self\<lparr>reference_detections := Some detections\<rparr>,
                   Shown annotated_frame ''Reference PCB loaded successfully!'')))"

text \<open>
  Lines 183-217. The frame read from the file is the only buffer of the store handed to
  \<^verbatim>\<open>compare_pcbs\<close>.
\<close>

definition open_test_file ::
  "app \<Rightarrow> string \<Rightarrow> (string \<Rightarrow> image option) \<Rightarrow> (image \<Rightarrow> yolo_result) \<Rightarrow>
   py_exception + outcome" where
  "open_test_file self file_path imread model =
     (case reference_detections self of
        None \<Rightarrow> Inr (Showwarning ''Warning'' ''Load a Reference PCB first'')
      | Some ref_detections \<Rightarrow>
          if file_path = [] then Inr Dismissed
          else case imread file_path of
            None \<Rightarrow> Inr (Showerror ''Error'' ''Could not read test image'')
          | Some frame \<Rightarrow>
              (let test_detections = fst (get_detections model frame);
                   (result_img, h) = compare_pcbs [frame] ref_detections test_detections 0
               in Inr (Shown (h ! result_img) ''Test PCB checked against reference!'')))"

subsection \<open>Auxiliary notions for the statements\<close>

text \<open>The two drawing calls issued for one classified entry (lines 90-92).\<close>

definition entry_calls :: "classified_entry \<Rightarrow> draw_call list" where
  "entry_calls e =
     (case region e of (x1, y1, x2, y2) \<Rightarrow>
        [Rectangle (x1, y1) (x2, y2) (status_color (status e)) 2,
         PutText (label e) (x1, y1 - 5) FONT_HERSHEY_SIMPLEX 0.6 (status_color (status e)) 2])"

text \<open>The drawing call issued for the \<open>i\<close>-th missing label (lines 97-98).\<close>

definition missing_line :: "nat \<Rightarrow> label \<Rightarrow> draw_call" where
  "missing_line i lbl =
     PutText (''Missing: '' @ lbl) (20, 40 + 30 * int i) FONT_HERSHEY_SIMPLEX 0.8 (0, 0, 255) 2"

definition draw_all :: "draw_call list \<Rightarrow> image \<Rightarrow> image" where
  "draw_all cs img = img\<lparr>drawn := drawn img @ cs\<rparr>"

text \<open>
  The distinct elements of a list in the order of their first occurrence
  (\<open>remdups\<close> keeps the last occurrence of each element).
\<close>

definition first_occurrences :: "'a list \<Rightarrow> 'a list" where
  "first_occurrences xs = rev (remdups (rev xs))"

text \<open>
  The drawing calls that \<^verbatim>\<open>compare_pcbs\<close> issues: the calls recorded on the image it
  returns, beyond those the test image already carried.
\<close>

definition issued_calls ::
  "store \<Rightarrow> detection list \<Rightarrow> detection list \<Rightarrow> addr \<Rightarrow> draw_call list" where
  "issued_calls h ref_detections test_detections test_img =
     (let (annotated, h') = compare_pcbs h ref_detections test_detections test_img
      in drop (length (drawn (h ! test_img))) (drawn (h' ! annotated)))"

text \<open>The boxes among a sequence of drawing calls, each with its colour, in order.\<close>

fun rectangles :: "draw_call list \<Rightarrow> (box \<times> colour) list" where
  "rectangles [] = []"
| "rectangles (Rectangle (x1, y1) (x2, y2) color thickness # cs) =
     ((x1, y1, x2, y2), color) # rectangles cs"
| "rectangles (PutText txt org fontFace fontScale color thickness # cs) = rectangles cs"

text \<open>The texts among a sequence of drawing calls, in order.\<close>

fun texts :: "draw_call list \<Rightarrow> string list" where
  "texts [] = []"
| "texts (Rectangle pt1 pt2 color thickness # cs) = texts cs"
| "texts (PutText txt org fontFace fontScale color thickness # cs) = txt # texts cs"

text \<open>
  Sample inputs for the callbacks: a frame, a file system in which every path holds it,
  and a detector that finds one resistor.
\<close>

definition sample_frame :: image where
  "sample_frame = \<lparr>shape = (480, 640, 3), elem_type = UInt8, pixels = [], drawn = []\<rparr>"

definition sample_imread :: "string \<Rightarrow> image option" where
  "sample_imread file_path = Some sample_frame"

definition sample_names :: "nat \<Rightarrow> string" where
  "sample_names cls_id = ''R1''"

definition sample_model :: "image \<Rightarrow> yolo_result" where
  "sample_model frame = \<lparr>boxes = [(0, 12, 11, 52, 31)], names = sample_names, plot = frame\<rparr>"

section \<open>Properties\<close>

subsection \<open>The drawing loops as updates of one buffer\<close>

lemma draw_all_Nil: "draw_all [] img = img"
  by (simp add: draw_all_def)

lemma draw_all_draw: "draw_all cs (draw c img) = draw_all (c # cs) img"
  by (simp add: draw_all_def draw_def)

lemma draw_all_append: "draw_all cs (draw_all bs img) = draw_all (bs @ cs) img"
  by (simp add: draw_all_def)

lemma draw_entries_store:
  "annotated < length h \<Longrightarrow>
   draw_entries h annotated es =
     h[annotated := draw_all (concat (map entry_calls es)) (h ! annotated)]"
proof (induction es arbitrary: h)
  case Nil
  then show ?case by (simp add: draw_all_Nil)
next
  case (Cons e es)
  obtain x1 y1 x2 y2 where r: "region e = (x1, y1, x2, y2)"
    by (cases "region e") auto
  show ?case
    using Cons.prems
    by (simp add: r Let_def cv2_rectangle_def cv2_putText_def Cons.IH entry_calls_def
        draw_all_draw)
qed

lemma draw_missing_store:
  "annotated < length h \<Longrightarrow>
   draw_missing h annotated i ls =
     h[annotated := draw_all (map (\<lambda>(k, l). missing_line k l) (enumerate i ls)) (h ! annotated)]"
proof (induction ls arbitrary: h i)
  case Nil
  then show ?case by (simp add: draw_all_Nil)
next
  case (Cons l ls)
  then show ?case
    by (simp add: cv2_putText_def draw_all_draw missing_line_def)
qed

text \<open>The loop of lines 87-92 draws the entries that \<open>compare\<close> computes.\<close>

lemma draw_test_components_entries:
  "draw_test_components h annotated ref_labels ds =
   draw_entries h annotated (map (classify ref_labels) ds)"
proof (induction ds arbitrary: h)
  case Nil
  then show ?case by simp
next
  case (Cons d ds)
  obtain lbl x1 y1 x2 y2 where d: "d = (lbl, x1, y1, x2, y2)"
    by (cases d) auto
  show ?case
    by (simp add: d classify_def Let_def Cons.IH)
qed

text \<open>\<^verbatim>\<open>compare_pcbs\<close> is the rendering of the comparison result.\<close>

lemma compare_pcbs_factor:
  "compare_pcbs h ref_detections test_detections test_img =
   render h test_img (compare ref_detections test_detections)"
  by (simp add: compare_pcbs_def render_def compare_def Let_def draw_test_components_entries
      comp_def split: prod.splits)

text \<open>
  The effect of \<open>render\<close> on the store: one new buffer, holding the base image with the
  calls for the entries and then the lines for the missing labels drawn on it.
\<close>

lemma render_store:
  "render h baseImage result =
     (length h,
      h @ [draw_all
             (concat (map entry_calls (entries result)) @
              map (\<lambda>(k, l). missing_line k l)
                (enumerate 0 (map missing_label (missing result))))
             (h ! baseImage)])"
  by (simp add: render_def ndarray_copy_def Let_def draw_entries_store draw_missing_store
      draw_all_append)

lemma enumerate_map_missing_label:
  "map (\<lambda>(k, l). missing_line k l) (enumerate n (map missing_label ms)) =
   map (\<lambda>(k, m). missing_line k (missing_label m)) (enumerate n ms)"
  by (induction ms arbitrary: n) simp_all

lemma shape_draw_all: "shape (draw_all cs img) = shape img"
  by (simp add: draw_all_def)

lemma elem_type_draw_all: "elem_type (draw_all cs img) = elem_type img"
  by (simp add: draw_all_def)

lemma drawn_draw_all: "drawn (draw_all cs img) = drawn img @ cs"
  by (simp add: draw_all_def)

lemma first_occurrences_filter:
  "first_occurrences (filter P xs) = filter P (first_occurrences xs)"
  by (simp add: first_occurrences_def rev_filter remdups_filter)

lemma count_list_filter:
  "count_list (filter P xs) x = (if P x then count_list xs x else 0)"
  by (induction xs) auto

lemma count_list_map_MissingEntry:
  "count_list (map MissingEntry xs) (MissingEntry x) = count_list xs x"
  by (induction xs) auto

subsection \<open>The calls issued by \<^verbatim>\<open>compare_pcbs\<close>\<close>

lemma missing_label_MissingEntry: "map missing_label (map MissingEntry ls) = ls"
  by (induction ls) simp_all

text \<open>
  Two calls for every test detection, in the order of the test input, then one line for
  every element of the comprehension of line 95.
\<close>

lemma issued_calls_eq:
  "issued_calls h ref_detections test_detections test_img =
     concat (map entry_calls (map (classify (map fst ref_detections)) test_detections)) @
     map (\<lambda>(k, l). missing_line k l)
       (enumerate 0 [lbl \<leftarrow> map fst ref_detections. lbl \<notin> set (map fst test_detections)])"
proof -
  have "drop (length as) (as @ bs) = bs" for as bs :: "draw_call list"
    by simp
  then show ?thesis
    by (simp only: issued_calls_def compare_pcbs_factor render_store split_conv Let_def
        nth_append_length drawn_draw_all compare_def comparison_result.simps
        missing_label_MissingEntry)
qed

lemma entry_calls_classify:
  "entry_calls (classify ref_labels (lbl, x1, y1, x2, y2)) =
     [Rectangle (x1, y1) (x2, y2) (if lbl \<in> set ref_labels then (0, 255, 0) else (0, 0, 255)) 2,
      PutText lbl (x1, y1 - 5) FONT_HERSHEY_SIMPLEX 0.6
        (if lbl \<in> set ref_labels then (0, 255, 0) else (0, 0, 255)) 2]"
  by (simp add: entry_calls_def classify_def)

lemma length_concat_entry_calls: "length (concat (map entry_calls es)) = 2 * length es"
  by (induction es) (simp_all add: entry_calls_def split: prod.splits)

lemma nth_concat_entry_calls:
  "i < length es \<Longrightarrow>
   concat (map entry_calls es) ! (2 * i) = entry_calls (es ! i) ! 0 \<and>
   concat (map entry_calls es) ! (2 * i + 1) = entry_calls (es ! i) ! 1"
proof (induction es arbitrary: i)
  case Nil
  then show ?case by simp
next
  case (Cons e es)
  have len: "length (entry_calls e) = 2"
    by (simp add: entry_calls_def split: prod.splits)
  show ?case
  proof (cases i)
    case 0
    then show ?thesis by (simp add: nth_append len)
  next
    case (Suc j)
    with Cons.prems have "j < length es" by simp
    from Cons.IH [OF this] show ?thesis
      by (simp add: Suc nth_append len)
  qed
qed

lemma rectangles_append: "rectangles (cs @ ds) = rectangles cs @ rectangles ds"
  by (induction cs rule: rectangles.induct) simp_all

lemma texts_append: "texts (cs @ ds) = texts cs @ texts ds"
  by (induction cs rule: texts.induct) simp_all

lemma rectangles_entry_calls:
  "rectangles (concat (map entry_calls es)) = map (\<lambda>e. (region e, status_color (status e))) es"
  by (induction es) (simp_all add: rectangles_append entry_calls_def split: prod.splits)

lemma texts_entry_calls: "texts (concat (map entry_calls es)) = map label es"
  by (induction es) (simp_all add: texts_append entry_calls_def split: prod.splits)

lemma rectangles_missing_lines:
  "rectangles (map (\<lambda>(k, l). missing_line k l) (enumerate n ls)) = []"
  by (induction ls arbitrary: n) (simp_all add: missing_line_def)

lemma texts_missing_lines:
  "texts (map (\<lambda>(k, l). missing_line k l) (enumerate n ls)) = map ((@) ''Missing: '') ls"
  by (induction ls arbitrary: n) (simp_all add: missing_line_def)

lemma rectangles_issued_calls:
  "rectangles (issued_calls h ref_detections test_detections test_img) =
     map (\<lambda>e. (region e, status_color (status e)))
       (map (classify (map fst ref_detections)) test_detections)"
  by (simp only: issued_calls_eq rectangles_append rectangles_entry_calls
      rectangles_missing_lines append_Nil2)

lemma texts_issued_calls:
  "texts (issued_calls h ref_detections test_detections test_img) =
     map fst test_detections @
     map ((@) ''Missing: '')
       [lbl \<leftarrow> map fst ref_detections. lbl \<notin> set (map fst test_detections)]"
proof -
  have "map label (map (classify rl) ds) = map fst ds" for rl ds
    by (simp add: classify_def comp_def)
  then show ?thesis
    by (simp only: issued_calls_eq texts_append texts_entry_calls texts_missing_lines)
qed

lemma length_entry_part:
  "length (concat (map entry_calls (map (classify ref_labels) test_detections))) =
   2 * length test_detections"
  by (simp only: length_concat_entry_calls length_map)

lemma drop_issued_calls:
  "drop (2 * length test_detections) (issued_calls h ref_detections test_detections test_img) =
     map (\<lambda>(k, l). missing_line k l)
       (enumerate 0 [lbl \<leftarrow> map fst ref_detections. lbl \<notin> set (map fst test_detections)])"
  by (metis issued_calls_eq append_eq_conv_conj length_entry_part)


lemma count_list_map_inj: "inj f \<Longrightarrow> count_list (map f xs) (f x) = count_list xs x"
  by (induction xs) (auto dest: injD)

lemma remdups_map_inj: "inj f \<Longrightarrow> remdups (map f xs) = map f (remdups xs)"
  by (induction xs) (auto simp: inj_image_mem_iff)

lemma first_occurrences_map_inj:
  "inj f \<Longrightarrow> first_occurrences (map f xs) = map f (first_occurrences xs)"
  by (simp add: first_occurrences_def rev_map remdups_map_inj)

lemma inj_Missing_prefix: "inj ((@) ''Missing: '')"
  by (rule injI) simp

subsection \<open>Reconciliation\<close>

text \<open>
  C1 (as stated): a reference label that occurs twice and is absent from the test
  detections yields a single MissingEntry. On reference R1, C1, C1 and test R1, C2 the
  comprehension of line 95 keeps both occurrences of C1, and \<^verbatim>\<open>compare_pcbs\<close> draws
  two lines for it.
\<close>

theorem missing_dedup_counterexample:
  "drawn (snd (compare_pcbs
      [\<lparr>shape = (480, 640, 3), elem_type = UInt8, pixels = [], drawn = []\<rparr>]
      [(''R1'', 10, 10, 50, 30), (''C1'', 60, 10, 90, 30), (''C1'', 60, 40, 90, 60)]
      [(''R1'', 12, 11, 52, 31), (''C2'', 100, 10, 130, 30)] 0) ! 1)
     = [Rectangle (12, 11) (52, 31) (0, 255, 0) 2,
        PutText ''R1'' (12, 6) FONT_HERSHEY_SIMPLEX 0.6 (0, 255, 0) 2,
        Rectangle (100, 10) (130, 30) (0, 0, 255) 2,
        PutText ''C2'' (100, 5) FONT_HERSHEY_SIMPLEX 0.6 (0, 0, 255) 2,
        PutText ''Missing: C1'' (20, 40) FONT_HERSHEY_SIMPLEX 0.8 (0, 0, 255) 2,
        PutText ''Missing: C1'' (20, 70) FONT_HERSHEY_SIMPLEX 0.8 (0, 0, 255) 2] \<and>
   texts (drop 4 (issued_calls
      [\<lparr>shape = (480, 640, 3), elem_type = UInt8, pixels = [], drawn = []\<rparr>]
      [(''R1'', 10, 10, 50, 30), (''C1'', 60, 10, 90, 30), (''C1'', 60, 40, 90, 60)]
      [(''R1'', 12, 11, 52, 31), (''C2'', 100, 10, 130, 30)] 0))
     = [''Missing: C1'', ''Missing: C1''] \<and>
   missing (compare
      [(''R1'', 10, 10, 50, 30), (''C1'', 60, 10, 90, 30), (''C1'', 60, 40, 90, 60)]
      [(''R1'', 12, 11, 52, 31), (''C2'', 100, 10, 130, 30)])
     = [MissingEntry ''C1'', MissingEntry ''C1''] \<and>
   missing (compare
      [(''R1'', 10, 10, 50, 30), (''C1'', 60, 10, 90, 30), (''C1'', 60, 40, 90, 60)]
      [(''R1'', 12, 11, 52, 31), (''C2'', 100, 10, 130, 30)])
     \<noteq> [MissingEntry ''C1'']"
  by (simp add: compare_def issued_calls_def compare_pcbs_def Let_def ndarray_copy_def
      cv2_rectangle_def cv2_putText_def draw_def)

text \<open>
  C1 (amended): for a label that occurs \<open>k\<close> times among the reference detections and
  in no test detection, \<^verbatim>\<open>compare_pcbs\<close> draws exactly \<open>k\<close> lines "Missing: label"
  after the calls for the test detections, one for each occurrence, and the result has
  \<open>k\<close> MissingEntries for it; for a label that occurs in a test detection there is none.
\<close>

theorem missing_per_occurrence:
  "count_list
     (texts (drop (2 * length test_detections)
        (issued_calls h ref_detections test_detections test_img)))
     (''Missing: '' @ lbl) =
     (if lbl \<notin> set (map fst test_detections)
      then count_list (map fst ref_detections) lbl else 0) \<and>
   count_list (missing (compare ref_detections test_detections)) (MissingEntry lbl) =
     (if lbl \<notin> set (map fst test_detections)
      then count_list (map fst ref_detections) lbl else 0)"
proof -
  have code: "count_list
     (texts (drop (2 * length test_detections)
        (issued_calls h ref_detections test_detections test_img)))
     (''Missing: '' @ lbl) =
     count_list [l \<leftarrow> map fst ref_detections. l \<notin> set (map fst test_detections)] lbl"
    by (simp only: drop_issued_calls texts_missing_lines
        count_list_map_inj [OF inj_Missing_prefix])
  show ?thesis
    by (simp only: code count_list_filter)
      (simp add: compare_def Let_def count_list_map_MissingEntry count_list_filter)
qed

theorem missing_per_occurrence_witness:
  "''C1'' \<notin> set (map fst [(''R1'', 12, 11, 52, 31), (''C2'', 100, 10, 130, 30 :: int)]) \<and>
   count_list (map fst
      [(''R1'', 10, 10, 50, 30), (''C1'', 60, 10, 90, 30), (''C1'', 60, 40, 90, 60 :: int)])
      ''C1'' = 2 \<and>
   count_list
     (texts (drop 4 (issued_calls
        [\<lparr>shape = (480, 640, 3), elem_type = UInt8, pixels = [], drawn = []\<rparr>]
        [(''R1'', 10, 10, 50, 30), (''C1'', 60, 10, 90, 30), (''C1'', 60, 40, 90, 60)]
        [(''R1'', 12, 11, 52, 31), (''C2'', 100, 10, 130, 30)] 0)))
     ''Missing: C1'' = 2 \<and>
   count_list (missing (compare
      [(''R1'', 10, 10, 50, 30), (''C1'', 60, 10, 90, 30), (''C1'', 60, 40, 90, 60)]
      [(''R1'', 12, 11, 52, 31), (''C2'', 100, 10, 130, 30)])) (MissingEntry ''C1'') = 2"
  using missing_per_occurrence
    [of "[(''R1'', 12, 11, 52, 31), (''C2'', 100, 10, 130, 30)]"
        "[\<lparr>shape = (480, 640, 3), elem_type = UInt8, pixels = [], drawn = []\<rparr>]"
        "[(''R1'', 10, 10, 50, 30), (''C1'', 60, 10, 90, 30), (''C1'', 60, 40, 90, 60)]"
        0 "''C1''"]
  by simp

text \<open>
  C2: for the \<open>i\<close>-th test detection \<^verbatim>\<open>compare_pcbs\<close> draws its box and its label,
  both green when the label occurs among the reference labels and both red otherwise;
  green is the colour of CORRECT and red the colour of EXTRA, and the entry of the
  detection has that status. The reference is only tested for membership: every test
  detection with the same label is drawn in the same colour and has the same status.
\<close>

theorem status_by_membership:
  "i < length test_detections \<Longrightarrow> test_detections ! i = (lbl, x1, y1, x2, y2) \<Longrightarrow>
   issued_calls h ref_detections test_detections test_img ! (2 * i) =
     Rectangle (x1, y1) (x2, y2)
       (if lbl \<in> set (map fst ref_detections) then (0, 255, 0) else (0, 0, 255)) 2 \<and>
   issued_calls h ref_detections test_detections test_img ! (2 * i + 1) =
     PutText lbl (x1, y1 - 5) FONT_HERSHEY_SIMPLEX 0.6
       (if lbl \<in> set (map fst ref_detections) then (0, 255, 0) else (0, 0, 255)) 2 \<and>
   (if lbl \<in> set (map fst ref_detections) then (0, 255, 0) else (0, 0, 255)) =
     status_color (if lbl \<in> set (map fst ref_detections) then CORRECT else EXTRA) \<and>
   (\<forall>j < length test_detections.
      fst (test_detections ! j) = lbl \<longrightarrow>
      snd (rectangles (issued_calls h ref_detections test_detections test_img) ! j) =
        (if lbl \<in> set (map fst ref_detections) then (0, 255, 0) else (0, 0, 255))) \<and>
   label (entries (compare ref_detections test_detections) ! i) = lbl \<and>
   region (entries (compare ref_detections test_detections) ! i) = (x1, y1, x2, y2) \<and>
   status (entries (compare ref_detections test_detections) ! i) =
     (if lbl \<in> set (map fst ref_detections) then CORRECT else EXTRA) \<and>
   (\<forall>j < length test_detections.
      fst (test_detections ! j) = lbl \<longrightarrow>
      status (entries (compare ref_detections test_detections) ! j) =
      status (entries (compare ref_detections test_detections) ! i))"
proof -
  assume i: "i < length test_detections" and d: "test_detections ! i = (lbl, x1, y1, x2, y2)"
  let ?es = "map (classify (map fst ref_detections)) test_detections"
  have len: "2 * i + 1 < length (concat (map entry_calls ?es))"
    using i by (simp only: length_entry_part)
  have e: "entry_calls (?es ! i) =
     [Rectangle (x1, y1) (x2, y2)
        (if lbl \<in> set (map fst ref_detections) then (0, 255, 0) else (0, 0, 255)) 2,
      PutText lbl (x1, y1 - 5) FONT_HERSHEY_SIMPLEX 0.6
        (if lbl \<in> set (map fst ref_detections) then (0, 255, 0) else (0, 0, 255)) 2]"
    using i d by (simp only: nth_map entry_calls_classify)
  have i': "i < length ?es"
    using i by simp
  have calls:
    "issued_calls h ref_detections test_detections test_img ! (2 * i) = entry_calls (?es ! i) ! 0"
    "issued_calls h ref_detections test_detections test_img ! (2 * i + 1) = entry_calls (?es ! i) ! 1"
    using len nth_concat_entry_calls [OF i']
    by (simp_all add: issued_calls_eq nth_append del: map_map)
  have rects: "\<forall>j < length test_detections.
      fst (test_detections ! j) = lbl \<longrightarrow>
      snd (rectangles (issued_calls h ref_detections test_detections test_img) ! j) =
        (if lbl \<in> set (map fst ref_detections) then (0, 255, 0) else (0, 0, 255))"
    by (simp add: rectangles_issued_calls classify_def)
  have view: "label (entries (compare ref_detections test_detections) ! i) = lbl \<and>
   region (entries (compare ref_detections test_detections) ! i) = (x1, y1, x2, y2) \<and>
   status (entries (compare ref_detections test_detections) ! i) =
     (if lbl \<in> set (map fst ref_detections) then CORRECT else EXTRA) \<and>
   (\<forall>j < length test_detections.
      fst (test_detections ! j) = lbl \<longrightarrow>
      status (entries (compare ref_detections test_detections) ! j) =
      status (entries (compare ref_detections test_detections) ! i))"
    using i d by (simp add: compare_def Let_def classify_def)
  show ?thesis
    using calls rects view by (simp add: e)
qed

theorem status_by_membership_witness:
  "(2::nat) < length [(''R1'', 12, 11, 52, 31), (''C2'', 100, 10, 130, 30),
                      (''R1'', 60, 11, 95, 31 :: int)] \<and>
   [(''R1'', 12, 11, 52, 31), (''C2'', 100, 10, 130, 30), (''R1'', 60, 11, 95, 31 :: int)] ! 2
     = (''R1'', 60, 11, 95, 31) \<and>
   issued_calls [\<lparr>shape = (480, 640, 3), elem_type = UInt8, pixels = [], drawn = []\<rparr>]
      [(''R1'', 10, 10, 50, 30)]
      [(''R1'', 12, 11, 52, 31), (''C2'', 100, 10, 130, 30), (''R1'', 60, 11, 95, 31)] 0 ! 4
     = Rectangle (60, 11) (95, 31) (0, 255, 0) 2 \<and>
   issued_calls [\<lparr>shape = (480, 640, 3), elem_type = UInt8, pixels = [], drawn = []\<rparr>]
      [(''R1'', 10, 10, 50, 30)]
      [(''R1'', 12, 11, 52, 31), (''C2'', 100, 10, 130, 30), (''R1'', 60, 11, 95, 31)] 0 ! 5
     = PutText ''R1'' (60, 6) FONT_HERSHEY_SIMPLEX 0.6 (0, 255, 0) 2 \<and>
   status (entries (compare [(''R1'', 10, 10, 50, 30)]
      [(''R1'', 12, 11, 52, 31), (''C2'', 100, 10, 130, 30), (''R1'', 60, 11, 95, 31)]) ! 2)
     = CORRECT \<and>
   status (entries (compare [(''R1'', 10, 10, 50, 30)]
      [(''R1'', 12, 11, 52, 31), (''C2'', 100, 10, 130, 30), (''R1'', 60, 11, 95, 31)]) ! 0)
     = CORRECT"
proof -
  have h: "(2::nat) < length [(''R1'', 12, 11, 52, 31), (''C2'', 100, 10, 130, 30),
                      (''R1'', 60, 11, 95, 31 :: int)]"
    by simp
  have d: "[(''R1'', 12, 11, 52, 31), (''C2'', 100, 10, 130, 30), (''R1'', 60, 11, 95, 31 :: int)] ! 2
     = (''R1'', 60, 11, 95, 31)"
    by simp
  show ?thesis
    using h d status_by_membership [OF h d,
      of "[\<lparr>shape = (480, 640, 3), elem_type = UInt8, pixels = [], drawn = []\<rparr>]"
         "[(''R1'', 10, 10, 50, 30)]" 0]
    by simp
qed



text \<open>
  C5 (as stated): the missing sequence lists the absent reference labels in the order of
  their first occurrence in the reference. On reference C1, D1, C1 and an empty test set
  the absent labels in first-occurrence order are C1, D1, but \<^verbatim>\<open>compare_pcbs\<close> draws
  the lines for C1, D1, C1, and the missing sequence is C1, D1, C1: C1 is listed again
  after D1.
\<close>

theorem missing_order_counterexample:
  "texts (issued_calls
      [\<lparr>shape = (480, 640, 3), elem_type = UInt8, pixels = [], drawn = []\<rparr>]
      [(''C1'', 60, 10, 90, 30), (''D1'', 10, 10, 50, 30), (''C1'', 60, 40, 90, 60)] [] 0)
     = [''Missing: C1'', ''Missing: D1'', ''Missing: C1''] \<and>
   missing (compare
      [(''C1'', 60, 10, 90, 30), (''D1'', 10, 10, 50, 30), (''C1'', 60, 40, 90, 60)] [])
     = [MissingEntry ''C1'', MissingEntry ''D1'', MissingEntry ''C1''] \<and>
   first_occurrences (map fst
      [(''C1'', 60, 10, 90, 30), (''D1'', 10, 10, 50, 30), (''C1'', 60, 40, 90, 60 :: int)])
     = [''C1'', ''D1''] \<and>
   missing (compare
      [(''C1'', 60, 10, 90, 30), (''D1'', 10, 10, 50, 30), (''C1'', 60, 40, 90, 60)] [])
     \<noteq> map MissingEntry (first_occurrences (map fst
      [(''C1'', 60, 10, 90, 30), (''D1'', 10, 10, 50, 30), (''C1'', 60, 40, 90, 60 :: int)]))"
  by (simp add: compare_def Let_def first_occurrences_def issued_calls_def compare_pcbs_def
      ndarray_copy_def cv2_putText_def draw_def)

text \<open>
  C5 (amended): \<^verbatim>\<open>compare_pcbs\<close> draws the boxes and the labels of the test detections
  in the order of the test input, and then the lines of the reference labels that are
  absent from the test set in the order of the reference input, one line for every
  occurrence; so the lines, each taken where it first occurs, are in the order of the
  first occurrences of their labels in the reference. The entries and the missing sequence
  of the result are in the same orders.
\<close>

theorem result_order:
  "map fst (rectangles (issued_calls h ref_detections test_detections test_img))
     = map snd test_detections \<and>
   texts (issued_calls h ref_detections test_detections test_img)
     = map fst test_detections @
       map ((@) ''Missing: '')
         [lbl \<leftarrow> map fst ref_detections. lbl \<notin> set (map fst test_detections)] \<and>
   first_occurrences
       (texts (drop (2 * length test_detections)
          (issued_calls h ref_detections test_detections test_img)))
     = map ((@) ''Missing: '')
         [lbl \<leftarrow> first_occurrences (map fst ref_detections).
            lbl \<notin> set (map fst test_detections)] \<and>
   map (\<lambda>e. (label e, region e)) (entries (compare ref_detections test_detections))
     = test_detections \<and>
   map missing_label (missing (compare ref_detections test_detections))
     = [lbl \<leftarrow> map fst ref_detections. lbl \<notin> set (map fst test_detections)] \<and>
   first_occurrences (map missing_label (missing (compare ref_detections test_detections)))
     = [lbl \<leftarrow> first_occurrences (map fst ref_detections).
          lbl \<notin> set (map fst test_detections)]"
proof -
  have e: "map (\<lambda>e. (label e, region e)) (map (classify rl) ds) = ds" for rl ds
    by (induction ds) (simp_all add: classify_def)
  have r: "map fst (rectangles (issued_calls h ref_detections test_detections test_img))
     = map snd test_detections"
    by (simp add: rectangles_issued_calls classify_def comp_def)
  have f: "first_occurrences
       (texts (drop (2 * length test_detections)
          (issued_calls h ref_detections test_detections test_img)))
     = map ((@) ''Missing: '')
         [lbl \<leftarrow> first_occurrences (map fst ref_detections).
            lbl \<notin> set (map fst test_detections)]"
    by (simp only: drop_issued_calls texts_missing_lines
        first_occurrences_map_inj [OF inj_Missing_prefix] first_occurrences_filter)
  show ?thesis
    by (simp only: r f texts_issued_calls compare_def Let_def comparison_result.simps e
        missing_label_MissingEntry first_occurrences_filter simp_thms)
qed

theorem result_order_witness:
  "texts (issued_calls
      [\<lparr>shape = (480, 640, 3), elem_type = UInt8, pixels = [], drawn = []\<rparr>]
      [(''C1'', 60, 10, 90, 30), (''D1'', 10, 10, 50, 30), (''C1'', 60, 40, 90, 60)]
      [(''R1'', 12, 11, 52, 31), (''D1'', 11, 10, 51, 30)] 0)
     = [''R1'', ''D1'', ''Missing: C1'', ''Missing: C1''] \<and>
   map (\<lambda>e. (label e, region e)) (entries (compare
      [(''C1'', 60, 10, 90, 30), (''D1'', 10, 10, 50, 30), (''C1'', 60, 40, 90, 60)]
      [(''R1'', 12, 11, 52, 31), (''D1'', 11, 10, 51, 30)]))
     = [(''R1'', 12, 11, 52, 31), (''D1'', 11, 10, 51, 30)] \<and>
   map missing_label (missing (compare
      [(''C1'', 60, 10, 90, 30), (''D1'', 10, 10, 50, 30), (''C1'', 60, 40, 90, 60)]
      [(''R1'', 12, 11, 52, 31), (''D1'', 11, 10, 51, 30)]))
     = [''C1'', ''C1'']"
  using result_order
    [of "[\<lparr>shape = (480, 640, 3), elem_type = UInt8, pixels = [], drawn = []\<rparr>]"
        "[(''C1'', 60, 10, 90, 30), (''D1'', 10, 10, 50, 30), (''C1'', 60, 40, 90, 60)]"
        "[(''R1'', 12, 11, 52, 31), (''D1'', 11, 10, 51, 30)]" 0]
  by simp

text \<open>
  C6: against an empty reference \<^verbatim>\<open>compare_pcbs\<close> draws the box and the label of every
  test detection in the colour of EXTRA and no line for a missing label; every entry of
  the result is EXTRA and nothing is missing. When the test set is empty too,
  \<^verbatim>\<open>compare_pcbs\<close> returns a copy of the test image with nothing drawn on it, and the
  result has no entries and no missing labels.
\<close>

theorem empty_reference:
  "issued_calls h [] test_detections test_img
     = concat (map (\<lambda>(lbl, x1, y1, x2, y2).
         [Rectangle (x1, y1) (x2, y2) (status_color EXTRA) 2,
          PutText lbl (x1, y1 - 5) FONT_HERSHEY_SIMPLEX 0.6 (status_color EXTRA) 2])
       test_detections) \<and>
   rectangles (issued_calls h [] test_detections test_img)
     = map (\<lambda>d. (snd d, status_color EXTRA)) test_detections \<and>
   texts (issued_calls h [] test_detections test_img) = map fst test_detections \<and>
   issued_calls h [] [] test_img = [] \<and>
   compare_pcbs h [] [] test_img = (length h, h @ [h ! test_img]) \<and>
   entries (compare [] test_detections)
     = map (\<lambda>d. \<lparr>label = fst d, region = snd d, status = EXTRA\<rparr>) test_detections \<and>
   missing (compare [] test_detections) = [] \<and>
   compare [] [] = \<lparr>entries = [], missing = []\<rparr>"
proof -
  have c: "concat (map entry_calls (map (classify []) ds))
     = concat (map (\<lambda>(lbl, x1, y1, x2, y2).
         [Rectangle (x1, y1) (x2, y2) (status_color EXTRA) 2,
          PutText lbl (x1, y1 - 5) FONT_HERSHEY_SIMPLEX 0.6 (status_color EXTRA) 2]) ds)" for ds
    by (induction ds) (auto simp: entry_calls_classify)
  have i: "issued_calls h [] test_detections test_img
     = concat (map (\<lambda>(lbl, x1, y1, x2, y2).
         [Rectangle (x1, y1) (x2, y2) (status_color EXTRA) 2,
          PutText lbl (x1, y1 - 5) FONT_HERSHEY_SIMPLEX 0.6 (status_color EXTRA) 2])
       test_detections)"
    using c [of test_detections] by (simp add: issued_calls_eq del: map_map)
  have r: "rectangles (issued_calls h [] test_detections test_img)
     = map (\<lambda>d. (snd d, status_color EXTRA)) test_detections"
    by (simp add: rectangles_issued_calls classify_def comp_def)
  have t: "texts (issued_calls h [] test_detections test_img) = map fst test_detections"
    by (simp add: texts_issued_calls)
  have n: "issued_calls h [] [] test_img = []"
    by (simp add: issued_calls_eq)
  have v: "compare_pcbs h [] [] test_img = (length h, h @ [h ! test_img]) \<and>
   entries (compare [] test_detections)
     = map (\<lambda>d. \<lparr>label = fst d, region = snd d, status = EXTRA\<rparr>) test_detections \<and>
   missing (compare [] test_detections) = [] \<and>
   compare [] [] = \<lparr>entries = [], missing = []\<rparr>"
    by (simp add: compare_def Let_def classify_def compare_pcbs_def ndarray_copy_def)
  show ?thesis
    using i r t n v by blast
qed

theorem empty_reference_witness:
  "issued_calls [\<lparr>shape = (480, 640, 3), elem_type = UInt8, pixels = [], drawn = []\<rparr>]
      [] [(''R1'', 12, 11, 52, 31)] 0
     = [Rectangle (12, 11) (52, 31) (0, 0, 255) 2,
        PutText ''R1'' (12, 6) FONT_HERSHEY_SIMPLEX 0.6 (0, 0, 255) 2] \<and>
   entries (compare [] [(''R1'', 12, 11, 52, 31)])
     = [\<lparr>label = ''R1'', region = (12, 11, 52, 31), status = EXTRA\<rparr>] \<and>
   missing (compare [] [(''R1'', 12, 11, 52, 31)]) = []"
  using empty_reference
    [of "[\<lparr>shape = (480, 640, 3), elem_type = UInt8, pixels = [], drawn = []\<rparr>]"
        "[(''R1'', 12, 11, 52, 31)]" 0]
  by simp

subsection \<open>The session\<close>

text \<open>
  C4 (as stated): opening a test file while no reference is set fails with a
  NoReferenceError surfaced to the caller. In the initial state the call returns to its
  caller, after the warning box; it raises no exception.
\<close>

theorem no_reference_error_counterexample:
  "open_test_file init ''board.jpg'' sample_imread sample_model
     = Inr (Showwarning ''Warning'' ''Load a Reference PCB first'') \<and>
   open_test_file init ''board.jpg'' sample_imread sample_model
     \<noteq> Inl (PyException ''NoReferenceError'')"
  by (simp add: open_test_file_def init_def)

text \<open>
  C4 (amended): while no reference is set, \<^verbatim>\<open>open_test_file\<close> shows the warning
  "Load a Reference PCB first" and returns without raising, whatever the file dialog,
  the file and the detector would give; it shows no comparison, and it does not behave
  as it does for an empty reference set. No reference is set in the initial state.
\<close>

theorem no_reference_warning:
  "reference_detections self = None \<Longrightarrow>
   open_test_file self file_path imread model
     = Inr (Showwarning ''Warning'' ''Load a Reference PCB first'') \<and>
   (\<forall>e. open_test_file self file_path imread model \<noteq> Inl e) \<and>
   (\<forall>img caption. open_test_file self file_path imread model \<noteq> Inr (Shown img caption)) \<and>
   open_test_file (self\<lparr>reference_detections := Some []\<rparr>) file_path imread model
     \<noteq> open_test_file self file_path imread model"
  by (simp add: open_test_file_def Let_def split: option.splits prod.splits)

theorem no_reference_warning_witness:
  "reference_detections init = None \<and>
   open_test_file init ''board.jpg'' sample_imread sample_model
     = Inr (Showwarning ''Warning'' ''Load a Reference PCB first'') \<and>
   open_test_file (init\<lparr>reference_detections := Some []\<rparr>) ''board.jpg''
     sample_imread sample_model
     = Inr (Shown \<lparr>shape = (480, 640, 3), elem_type = UInt8, pixels = [],
              drawn = [Rectangle (12, 11) (52, 31) (0, 0, 255) 2,
                       PutText ''R1'' (12, 6) FONT_HERSHEY_SIMPLEX 0.6 (0, 0, 255) 2]\<rparr>
         ''Test PCB checked against reference!'')"
proof -
  have h: "reference_detections init = None"
    by (simp add: init_def)
  show ?thesis
    using h no_reference_warning [OF h, of "''board.jpg''" sample_imread sample_model]
    by (simp add: open_test_file_def init_def get_detections_def compare_pcbs_def Let_def
        ndarray_copy_def cv2_rectangle_def cv2_putText_def draw_def sample_imread_def
        sample_model_def sample_names_def sample_frame_def)
qed

subsection \<open>Rendering\<close>

text \<open>
  C7: \<open>render\<close> leaves every buffer that existed before the call as it was, the base
  image among them; the annotated image is a new buffer, at an address that was not in
  use and that differs from the one of the base image; with no entries and no missing
  labels it holds a copy of the base image. The same holds of \<^verbatim>\<open>compare_pcbs\<close> and
  its test image.
\<close>

theorem render_leaves_base:
  "baseImage < length h \<Longrightarrow>
   (\<forall>b < length h. snd (render h baseImage result) ! b = h ! b) \<and>
   snd (render h baseImage result) ! baseImage = h ! baseImage \<and>
   \<not> fst (render h baseImage result) < length h \<and>
   fst (render h baseImage result) \<noteq> baseImage \<and>
   fst (render h baseImage result) < length (snd (render h baseImage result)) \<and>
   (entries result = [] \<and> missing result = [] \<longrightarrow>
      snd (render h baseImage result) ! fst (render h baseImage result) = h ! baseImage) \<and>
   snd (compare_pcbs h ref_detections test_detections baseImage) ! baseImage = h ! baseImage \<and>
   fst (compare_pcbs h ref_detections test_detections baseImage) \<noteq> baseImage"
  by (simp add: compare_pcbs_factor render_store nth_append draw_all_Nil)

theorem render_leaves_base_witness:
  "(0::nat) < length [\<lparr>shape = (480, 640, 3), elem_type = UInt8, pixels = [7, 7, 7], drawn = []\<rparr>] \<and>
   snd (render [\<lparr>shape = (480, 640, 3), elem_type = UInt8, pixels = [7, 7, 7], drawn = []\<rparr>] 0
          \<lparr>entries = [\<lparr>label = ''R1'', region = (12, 11, 52, 31), status = CORRECT\<rparr>],
            missing = [MissingEntry ''C1'']\<rparr>) ! 0
     = \<lparr>shape = (480, 640, 3), elem_type = UInt8, pixels = [7, 7, 7], drawn = []\<rparr> \<and>
   fst (render [\<lparr>shape = (480, 640, 3), elem_type = UInt8, pixels = [7, 7, 7], drawn = []\<rparr>] 0
          \<lparr>entries = [\<lparr>label = ''R1'', region = (12, 11, 52, 31), status = CORRECT\<rparr>],
            missing = [MissingEntry ''C1'']\<rparr>) = 1 \<and>
   snd (render [\<lparr>shape = (480, 640, 3), elem_type = UInt8, pixels = [7, 7, 7], drawn = []\<rparr>] 0
          \<lparr>entries = [], missing = []\<rparr>) ! 1
     = \<lparr>shape = (480, 640, 3), elem_type = UInt8, pixels = [7, 7, 7], drawn = []\<rparr>"
proof -
  have h: "(0::nat) < length [\<lparr>shape = (480, 640, 3), elem_type = UInt8, pixels = [7, 7, 7], drawn = []\<rparr>]"
    by simp
  show ?thesis
    using h
      render_leaves_base [OF h, of
        "\<lparr>entries = [\<lparr>label = ''R1'', region = (12, 11, 52, 31), status = CORRECT\<rparr>],
          missing = [MissingEntry ''C1'']\<rparr>"]
      render_leaves_base [OF h, of "\<lparr>entries = [], missing = []\<rparr>"]
    by (simp add: render_def ndarray_copy_def Let_def cv2_rectangle_def cv2_putText_def draw_def)
qed

text \<open>
  C8: the annotated image is determined by the contents of the base image and by the
  comparison result. Two calls whose base images have the same contents, in whatever
  stores and at whatever addresses, return annotated images with the same contents; so
  do two calls of \<^verbatim>\<open>compare_pcbs\<close> on the same detections.
\<close>

theorem render_deterministic:
  "h1 ! b1 = h2 ! b2 \<Longrightarrow>
   snd (render h1 b1 result) ! fst (render h1 b1 result)
     = snd (render h2 b2 result) ! fst (render h2 b2 result) \<and>
   snd (compare_pcbs h1 ref_detections test_detections b1)
       ! fst (compare_pcbs h1 ref_detections test_detections b1)
     = snd (compare_pcbs h2 ref_detections test_detections b2)
       ! fst (compare_pcbs h2 ref_detections test_detections b2)"
  by (simp add: compare_pcbs_factor render_store)

theorem render_deterministic_witness:
  "[\<lparr>shape = (480, 640, 3), elem_type = UInt8, pixels = [7, 7, 7], drawn = []\<rparr>] ! 0
     = [\<lparr>shape = (2, 2, 1), elem_type = UInt16, pixels = [1, 2, 3, 4], drawn = []\<rparr>,
        \<lparr>shape = (480, 640, 3), elem_type = UInt8, pixels = [7, 7, 7], drawn = []\<rparr>] ! 1 \<and>
   snd (render [\<lparr>shape = (480, 640, 3), elem_type = UInt8, pixels = [7, 7, 7], drawn = []\<rparr>] 0
          \<lparr>entries = [\<lparr>label = ''R1'', region = (12, 11, 52, 31), status = CORRECT\<rparr>],
            missing = [MissingEntry ''C1'']\<rparr>) ! 1
     = snd (render
          [\<lparr>shape = (2, 2, 1), elem_type = UInt16, pixels = [1, 2, 3, 4], drawn = []\<rparr>,
           \<lparr>shape = (480, 640, 3), elem_type = UInt8, pixels = [7, 7, 7], drawn = []\<rparr>] 1
          \<lparr>entries = [\<lparr>label = ''R1'', region = (12, 11, 52, 31), status = CORRECT\<rparr>],
            missing = [MissingEntry ''C1'']\<rparr>) ! 2"
proof -
  have h: "[\<lparr>shape = (480, 640, 3), elem_type = UInt8, pixels = [7, 7, 7], drawn = []\<rparr>] ! 0
     = [\<lparr>shape = (2, 2, 1), elem_type = UInt16, pixels = [1, 2, 3, 4], drawn = []\<rparr>,
        \<lparr>shape = (480, 640, 3), elem_type = UInt8, pixels = [7, 7, 7], drawn = []\<rparr>] ! 1"
    by simp
  show ?thesis
    using h
      render_deterministic [OF h, of
        "\<lparr>entries = [\<lparr>label = ''R1'', region = (12, 11, 52, 31), status = CORRECT\<rparr>],
          missing = [MissingEntry ''C1'']\<rparr>"]
    by (simp add: render_def ndarray_copy_def Let_def cv2_rectangle_def cv2_putText_def draw_def)
qed

text \<open>
  C9: on the annotated image \<open>render\<close> draws, after the calls for the entries, one
  text line for every entry of the missing sequence and nothing else: the \<open>i\<close>-th line
  (from 0) is the text "Missing: " followed by the label of the \<open>i\<close>-th missing entry,
  at x = 20 and y = 40 + 30 i, in the colour of the status EXTRA. These are the calls
  \<^verbatim>\<open>compare_pcbs\<close> issues for the result of \<open>compare\<close>.
\<close>

theorem missing_lines_drawn:
  "drawn (snd (render h baseImage result) ! fst (render h baseImage result)) =
     drawn (h ! baseImage) @
     concat (map entry_calls (entries result)) @
     map (\<lambda>(i, m). PutText (''Missing: '' @ missing_label m) (20, 40 + 30 * int i)
                     FONT_HERSHEY_SIMPLEX 0.8 (status_color EXTRA) 2)
       (enumerate 0 (missing result)) \<and>
   drawn (snd (compare_pcbs h ref_detections test_detections baseImage)
            ! fst (compare_pcbs h ref_detections test_detections baseImage)) =
     drawn (h ! baseImage) @
     concat (map entry_calls (entries (compare ref_detections test_detections))) @
     map (\<lambda>(i, m). PutText (''Missing: '' @ missing_label m) (20, 40 + 30 * int i)
                     FONT_HERSHEY_SIMPLEX 0.8 (status_color EXTRA) 2)
       (enumerate 0 (missing (compare ref_detections test_detections)))"
proof -
  have lines: "map (\<lambda>(k, l). missing_line k l) (enumerate 0 (map missing_label ms)) =
     map (\<lambda>(i, m). PutText (''Missing: '' @ missing_label m) (20, 40 + 30 * int i)
                     FONT_HERSHEY_SIMPLEX 0.8 (status_color EXTRA) 2)
       (enumerate 0 ms)" for ms
    unfolding enumerate_map_missing_label by (simp add: missing_line_def)
  show ?thesis
    by (simp only: compare_pcbs_factor render_store fst_conv snd_conv nth_append_length
        drawn_draw_all lines simp_thms)
qed

theorem missing_lines_drawn_witness:
  "drawn (snd (render
      [\<lparr>shape = (480, 640, 3), elem_type = UInt8, pixels = [7, 7, 7], drawn = []\<rparr>] 0
      \<lparr>entries = [], missing = [MissingEntry ''C1'', MissingEntry ''D7'']\<rparr>) ! 1) =
     [PutText ''Missing: C1'' (20, 40) FONT_HERSHEY_SIMPLEX 0.8 (0, 0, 255) 2,
      PutText ''Missing: D7'' (20, 70) FONT_HERSHEY_SIMPLEX 0.8 (0, 0, 255) 2]"
  using missing_lines_drawn
    [of "[\<lparr>shape = (480, 640, 3), elem_type = UInt8, pixels = [7, 7, 7], drawn = []\<rparr>]" 0
        "\<lparr>entries = [], missing = [MissingEntry ''C1'', MissingEntry ''D7'']\<rparr>"]
  by (simp add: render_store)

text \<open>
  C10: the image returned by \<^verbatim>\<open>compare_pcbs\<close> has the shape (height, width,
  channels) and the element type of the test image.
\<close>

theorem annotated_same_shape:
  "shape (snd (compare_pcbs h ref_detections test_detections test_img)
            ! fst (compare_pcbs h ref_detections test_detections test_img))
     = shape (h ! test_img) \<and>
   elem_type (snd (compare_pcbs h ref_detections test_detections test_img)
            ! fst (compare_pcbs h ref_detections test_detections test_img))
     = elem_type (h ! test_img)"
  by (simp add: compare_pcbs_factor render_store shape_draw_all elem_type_draw_all)

theorem annotated_same_shape_witness:
  "shape (snd (compare_pcbs
      [\<lparr>shape = (480, 640, 3), elem_type = UInt8, pixels = [7, 7, 7], drawn = []\<rparr>]
      [(''R1'', 10, 10, 50, 30), (''C1'', 60, 10, 90, 30)]
      [(''R1'', 12, 11, 52, 31), (''C2'', 100, 10, 130, 30)] 0) ! 1) = (480, 640, 3) \<and>
   elem_type (snd (compare_pcbs
      [\<lparr>shape = (480, 640, 3), elem_type = UInt8, pixels = [7, 7, 7], drawn = []\<rparr>]
      [(''R1'', 10, 10, 50, 30), (''C1'', 60, 10, 90, 30)]
      [(''R1'', 12, 11, 52, 31), (''C2'', 100, 10, 130, 30)] 0) ! 1) = UInt8"
  using annotated_same_shape
    [of "[\<lparr>shape = (480, 640, 3), elem_type = UInt8, pixels = [7, 7, 7], drawn = []\<rparr>]"
        "[(''R1'', 10, 10, 50, 30), (''C1'', 60, 10, 90, 30)]"
        "[(''R1'', 12, 11, 52, 31), (''C2'', 100, 10, 130, 30)]" 0]
  by (simp add: compare_pcbs_factor render_store)

end
